theory Spec2Isabelle
  imports Main "HOL-Library.Word" "HOL-Library.Sublist"
begin

section \<open>Strings\<close>

text \<open>
  The program is TypeScript: a string is a sequence of UTF-16 code units, and
  \<^verbatim>\<open>length\<close>, indexing, \<^verbatim>\<open>slice\<close> and \<^verbatim>\<open>lastIndexOf\<close> count code units.
  A code unit is a 16-bit word; \<open>js\<close> turns an ASCII literal into such a string.
\<close>

type_synonym jschar = "16 word"
type_synonym jsstring = "16 word list"

definition js :: "string \<Rightarrow> jsstring" where
  "js s = map of_char s"

definition LT :: jschar where "LT = 0x3C"
definition GT :: jschar where "GT = 0x3E"
definition SP :: jschar where "SP = 0x20"
definition SLASH :: jschar where "SLASH = 0x2F"
definition QUOTE :: jschar where "QUOTE = 0x22"
definition LF :: jschar where "LF = 0x0A"

text \<open>
  The characters the regular expression dot does not match: the ECMAScript line
  terminators LF, CR, LS and PS.
\<close>

definition lineTerminator :: "jschar \<Rightarrow> bool" where
  "lineTerminator c = (c = 0x0A \<or> c = 0x0D \<or> c = 0x2028 \<or> c = 0x2029)"

text \<open>
  \<^verbatim>\<open>s.lastIndexOf(c)\<close>: the index of the last occurrence of \<open>c\<close>, or \<open>-1\<close>.
\<close>

fun lastIndexFrom :: "'a \<Rightarrow> 'a list \<Rightarrow> int \<Rightarrow> int \<Rightarrow> int" where
  "lastIndexFrom c [] i found = found"
| "lastIndexFrom c (x # xs) i found = lastIndexFrom c xs (i + 1) (if x = c then i else found)"

definition lastIndexOf :: "'a list \<Rightarrow> 'a \<Rightarrow> int" where
  "lastIndexOf s c = lastIndexFrom c s 0 (- 1)"

section \<open>The chunk splitter (splitHtml)\<close>

text \<open>
  \<^verbatim>\<open>splitHtml\<close> of the standalone module and \<^verbatim>\<open>LlamaWriter.splitHtml\<close> have the
  same body; the only difference is where the maximum chunk size comes from (a
  parameter with a default, or the field \<^verbatim>\<open>this.maxChunkSize\<close>). The local
  variables of the loop are the fields of the state. The maximum chunk size is a
  JavaScript number; the model takes the integers.
\<close>

record split_state =
  chunks :: "jsstring list"
  currentChunk :: jsstring
  tagStack :: "jsstring list"
  inTag :: bool
  tagContent :: jsstring

definition initState :: split_state where
  "initState = \<lparr>chunks = [], currentChunk = [], tagStack = [], inTag = False, tagContent = []\<rparr>"

text \<open>\<^verbatim>\<open>tagContent.match(/^<\//)\<close>\<close>

definition isClosingTag :: "jsstring \<Rightarrow> bool" where
  "isClosingTag t = (take 2 t = [LT, SLASH])"

text \<open>
  \<^verbatim>\<open>tagContent.match(/^<.*\/>/)\<close>: after the leading \<open><\<close>, some run of characters
  that are not line terminators, then \<open>/>\<close>.
\<close>

fun dotStarSlashGt :: "jsstring \<Rightarrow> bool" where
  "dotStarSlashGt (c # d # r) =
     ((c = SLASH \<and> d = GT) \<or> (\<not> lineTerminator c \<and> dotStarSlashGt (d # r)))"
| "dotStarSlashGt _ = False"

definition isSelfClosing :: "jsstring \<Rightarrow> bool" where
  "isSelfClosing t = (case t of [] \<Rightarrow> False | c # r \<Rightarrow> c = LT \<and> dotStarSlashGt r)"

text \<open>
  \<^verbatim>\<open>tagContent.match(/^<([^ >]+)/)?.[1]\<close>: the longest non-empty run, after the
  leading \<open><\<close>, of characters other than space and \<open>>\<close>; \<open>None\<close> when the
  expression does not match (the value is then \<^verbatim>\<open>undefined\<close>, which is falsy).
\<close>

definition tagNameOf :: "jsstring \<Rightarrow> jsstring option" where
  "tagNameOf t =
     (case t of [] \<Rightarrow> None
      | c # r \<Rightarrow>
          if c = LT then
            (let n = takeWhile (\<lambda>x. x \<noteq> SP \<and> x \<noteq> GT) r in if n = [] then None else Some n)
          else None)"

text \<open>The two inner loops over the tag stack.\<close>

definition closeTags :: "jsstring list \<Rightarrow> jsstring" where
  "closeTags st = concat (map (\<lambda>n. [LT, SLASH] @ n @ [GT]) (rev st))"

definition openTags :: "jsstring list \<Rightarrow> jsstring" where
  "openTags st = concat (map (\<lambda>n. [LT] @ n @ [GT]) st)"

text \<open>
  The test of line 218, \<^verbatim>\<open>currentChunk.length >= maxChunkSize && !inTag\<close>, on the
  accumulator that already holds the character just read.
\<close>

definition tooLarge :: "int \<Rightarrow> split_state \<Rightarrow> bool" where
  "tooLarge maxChunkSize s = (int (length (currentChunk s)) \<ge> maxChunkSize \<and> \<not> inTag s)"

text \<open>
  The body of that \<^verbatim>\<open>if\<close>. The source empties \<^verbatim>\<open>currentChunk\<close>, appends the
  opening tags to it, and then appends \<^verbatim>\<open>currentChunk.slice(splitIndex)\<close>: the
  slice is taken from the variable as it is at that moment, the opening tags.
\<close>

definition splitHere :: "split_state \<Rightarrow> split_state" where
  "splitHere s =
     (let i = lastIndexOf (currentChunk s) SP;
          splitIndex = (if i = - 1 then int (length (currentChunk s)) else i);
          chunkToAdd = take (nat splitIndex) (currentChunk s) @ closeTags (tagStack s);
          reopened = openTags (tagStack s)
      in s\<lparr>chunks := chunks s @ [chunkToAdd],
            currentChunk := reopened @ drop (nat splitIndex) reopened\<rparr>)"

text \<open>One iteration of the loop over the characters of the input.\<close>

definition step :: "int \<Rightarrow> split_state \<Rightarrow> jschar \<Rightarrow> split_state" where
  "step maxChunkSize s c =
     (if c = LT then s\<lparr>inTag := True, tagContent := [c]\<rparr>
      else if inTag s then
        (let tc = tagContent s @ [c] in
         if c = GT then
           s\<lparr>inTag := False,
              tagStack :=
                (if isClosingTag tc then butlast (tagStack s)
                 else if \<not> isSelfClosing tc then
                   (case tagNameOf tc of None \<Rightarrow> tagStack s | Some n \<Rightarrow> tagStack s @ [n])
                 else tagStack s),
              currentChunk := currentChunk s @ tc,
              tagContent := []\<rparr>
         else s\<lparr>tagContent := tc\<rparr>)
      else
        (let s' = s\<lparr>currentChunk := currentChunk s @ [c]\<rparr>
         in if tooLarge maxChunkSize s' then splitHere s' else s'))"

fun scan :: "int \<Rightarrow> split_state \<Rightarrow> jsstring \<Rightarrow> split_state" where
  "scan maxChunkSize s [] = s"
| "scan maxChunkSize s (c # cs) = scan maxChunkSize (step maxChunkSize s c) cs"

definition finish :: "split_state \<Rightarrow> jsstring list" where
  "finish s = (if currentChunk s \<noteq> [] then chunks s @ [currentChunk s] else chunks s)"

definition splitHtml :: "jsstring \<Rightarrow> int \<Rightarrow> jsstring list" where
  "splitHtml htmlInput maxChunkSize = finish (scan maxChunkSize initState htmlInput)"

text \<open>
  The number of characters of an input that the loop reads outside a tag token, that
  is, with which it reaches line 215: a \<open><\<close> opens a tag token, the next \<open>>\<close>
  ends it, and neither they nor the characters between them count. The flag says
  whether the reading starts inside a tag token.
\<close>

fun textChars :: "bool \<Rightarrow> jsstring \<Rightarrow> nat" where
  "textChars inside [] = 0"
| "textChars inside (c # cs) =
     (if c = LT then textChars True cs
      else if inside then textChars (c \<noteq> GT) cs
      else Suc (textChars False cs))"

section \<open>The document tree\<close>

text \<open>
  The extractor works on the tree that \<^verbatim>\<open>cheerio.load\<close> builds. The library is not
  part of the repository; the model has the tree as a datatype (elements with a name,
  attributes in order and children; text; comments) and gives the four query calls the
  cleanup makes their documented meaning on it: a type selector matches the elements
  of that name, \<^verbatim>\<open>*\<close> every element, \<^verbatim>\<open>img[src^="data:"]\<close> the \<open>img\<close> elements
  with a \<open>src\<close> attribute whose value starts with \<open>data:\<close>; \<^verbatim>\<open>remove()\<close> takes the
  matched elements out of the tree, \<^verbatim>\<open>removeAttr(a)\<close> deletes attribute \<open>a\<close> from
  them, \<^verbatim>\<open>text()\<close> joins the text of the matched elements and their descendants.
  A document is the list of the root's children.
\<close>

datatype node =
    Element (tagName: jsstring) (attribs: "(jsstring \<times> jsstring) list") (childNodes: "node list")
  | Text jsstring
  | Comment jsstring

type_synonym document = "node list"

fun elements :: "node \<Rightarrow> node list" where
  "elements (Element n a cs) = Element n a cs # concat (map elements cs)"
| "elements (Text s) = []"
| "elements (Comment s) = []"

definition allElements :: "document \<Rightarrow> node list" where
  "allElements doc = concat (map elements doc)"

fun textOf :: "node \<Rightarrow> jsstring" where
  "textOf (Element n a cs) = concat (map textOf cs)"
| "textOf (Text s) = s"
| "textOf (Comment s) = []"

text \<open>\<^verbatim>\<open>$(name).text()\<close>\<close>

definition textOfTag :: "jsstring \<Rightarrow> document \<Rightarrow> jsstring" where
  "textOfTag name doc = concat (map textOf (filter (\<lambda>e. tagName e = name) (allElements doc)))"

text \<open>\<^verbatim>\<open>$(name).remove()\<close>\<close>

fun removeByName :: "jsstring \<Rightarrow> document \<Rightarrow> document" where
  "removeByName t [] = []"
| "removeByName t (Element n a cs # ns) =
     (if n = t then removeByName t ns else Element n a (removeByName t cs) # removeByName t ns)"
| "removeByName t (Text s # ns) = Text s # removeByName t ns"
| "removeByName t (Comment s # ns) = Comment s # removeByName t ns"

text \<open>\<^verbatim>\<open>$(selector).removeAttr(a)\<close>, the selector given as a test on name and attributes.\<close>

definition removeAttr :: "jsstring \<Rightarrow> (jsstring \<times> jsstring) list \<Rightarrow> (jsstring \<times> jsstring) list" where
  "removeAttr a as = filter (\<lambda>(k, v). k \<noteq> a) as"

fun removeAttrWhere ::
  "(jsstring \<Rightarrow> (jsstring \<times> jsstring) list \<Rightarrow> bool) \<Rightarrow> jsstring \<Rightarrow> node \<Rightarrow> node" where
  "removeAttrWhere sel a (Element n as cs) =
     Element n (if sel n as then removeAttr a as else as) (map (removeAttrWhere sel a) cs)"
| "removeAttrWhere sel a (Text s) = Text s"
| "removeAttrWhere sel a (Comment s) = Comment s"

definition imgWithDataSrc :: "jsstring \<Rightarrow> (jsstring \<times> jsstring) list \<Rightarrow> bool" where
  "imgWithDataSrc n as =
     (n = js ''img'' \<and> (case map_of as (js ''src'') of None \<Rightarrow> False | Some v \<Rightarrow> prefix (js ''data:'') v))"

definition anyElement :: "jsstring \<Rightarrow> (jsstring \<times> jsstring) list \<Rightarrow> bool" where
  "anyElement n as = True"

section \<open>The extractor (preprocessHTML)\<close>

record rule =
  ruleType :: jsstring
  selector :: "jsstring option"
  exclude :: "jsstring option"

text \<open>
  What the rule loop asks of the library, for selectors that come from the rule store:
  the parser, \<^verbatim>\<open>$(selector)\<close> (\<open>None\<close> when the call throws), the size of a
  selection, \<^verbatim>\<open>selection.find(exclude).remove()\<close> (the document after it, \<open>None\<close>
  when the call throws) and \<^verbatim>\<open>selection.html()\<close> (\<open>None\<close> for \<^verbatim>\<open>null\<close>). These
  are parameters of the model.
\<close>

record 'sel engine =
  load :: "jsstring \<Rightarrow> document"
  select :: "jsstring option \<Rightarrow> document \<Rightarrow> 'sel option"
  selLength :: "'sel \<Rightarrow> nat"
  findRemove :: "jsstring \<Rightarrow> 'sel \<Rightarrow> document \<Rightarrow> document option"
  selHtml :: "'sel \<Rightarrow> document \<Rightarrow> jsstring option"

text \<open>
  The loop over the rules; \<open>processedHtml\<close> is the array built so far. A rule that
  throws is skipped by the inner \<^verbatim>\<open>catch\<close>.
\<close>

fun applyRules :: "'sel engine \<Rightarrow> rule list \<Rightarrow> document \<Rightarrow> jsstring list \<Rightarrow> jsstring list" where
  "applyRules e [] doc processedHtml = processedHtml"
| "applyRules e (r # rs) doc processedHtml =
     (if ruleType r = js ''css'' then
        (case select e (selector r) doc of
           None \<Rightarrow> applyRules e rs doc processedHtml
         | Some selectedDOM \<Rightarrow>
             if selLength e selectedDOM > 0 then
               (let excSelector = (case exclude r of None \<Rightarrow> [] | Some x \<Rightarrow> x) in
                if excSelector \<noteq> [] then
                  (case findRemove e excSelector selectedDOM doc of
                     None \<Rightarrow> applyRules e rs doc processedHtml
                   | Some doc' \<Rightarrow>
                       applyRules e rs doc'
                         (processedHtml @ [case selHtml e selectedDOM doc' of None \<Rightarrow> [] | Some h \<Rightarrow> h]))
                else
                  applyRules e rs doc
                    (processedHtml @ [case selHtml e selectedDOM doc of None \<Rightarrow> [] | Some h \<Rightarrow> h]))
             else applyRules e rs doc processedHtml)
      else applyRules e rs doc processedHtml)"

text \<open>
  The three statements that every variant runs after reading the title, and the fourth
  that only the standalone \<^verbatim>\<open>preprocessHTML\<close> has.
\<close>

definition removeScriptsStylesData :: "document \<Rightarrow> document" where
  "removeScriptsStylesData doc =
     map (removeAttrWhere imgWithDataSrc (js ''src''))
       (removeByName (js ''style'') (removeByName (js ''script'') doc))"

definition removeStyleAttrs :: "document \<Rightarrow> document" where
  "removeStyleAttrs doc = map (removeAttrWhere anyElement (js ''style'')) doc"

text \<open>\<^verbatim>\<open>LlamaWriter.preprocessHTML\<close>: the title and the fragments.\<close>

definition llamaCleanup :: "document \<Rightarrow> document" where
  "llamaCleanup doc = removeScriptsStylesData doc"

definition llamaPreprocessHTML :: "'sel engine \<Rightarrow> jsstring \<Rightarrow> rule list \<Rightarrow> jsstring \<times> jsstring list" where
  "llamaPreprocessHTML e html rules =
     (let doc = load e html;
          title = textOfTag (js ''title'') doc;
          doc' = llamaCleanup doc
      in if rules = [] then (title, [textOfTag (js ''body'') doc'])
         else (title, applyRules e rules doc' []))"

text \<open>The standalone \<^verbatim>\<open>preprocessHTML\<close>.\<close>

definition standaloneCleanup :: "document \<Rightarrow> document" where
  "standaloneCleanup doc = removeStyleAttrs (removeScriptsStylesData doc)"

definition preprocessHTML :: "'sel engine \<Rightarrow> jsstring \<Rightarrow> rule list \<Rightarrow> jsstring \<times> jsstring list" where
  "preprocessHTML e html rules =
     (let doc = load e html;
          title = textOfTag (js ''title'') doc;
          doc' = standaloneCleanup doc
      in if rules = [] then (title, [textOfTag (js ''body'') doc'])
         else (title, applyRules e rules doc' []))"

text \<open>\<^verbatim>\<open>GeminiWriter.preprocessHTML\<close>: no rules, the text of the whole document.\<close>

definition geminiCleanup :: "document \<Rightarrow> document" where
  "geminiCleanup doc = removeScriptsStylesData doc"

definition geminiPreprocessHTML :: "'sel engine \<Rightarrow> jsstring \<Rightarrow> jsstring \<times> jsstring" where
  "geminiPreprocessHTML e html =
     (let doc = load e html;
          title = textOfTag (js ''title'') doc;
          doc' = geminiCleanup doc
      in (title, concat (map textOf doc')))"

text \<open>Properties of a cleaned document, as tests on its elements.\<close>

definition hasAttr :: "jsstring \<Rightarrow> node \<Rightarrow> bool" where
  "hasAttr a n = (map_of (attribs n) a \<noteq> None)"

definition noElementNamed :: "jsstring \<Rightarrow> document \<Rightarrow> bool" where
  "noElementNamed t doc = list_all (\<lambda>n. tagName n \<noteq> t) (allElements doc)"

definition noDataSrc :: "document \<Rightarrow> bool" where
  "noDataSrc doc =
     list_all (\<lambda>n. \<not> imgWithDataSrc (tagName n) (attribs n)) (allElements doc)"

definition noStyleAttr :: "document \<Rightarrow> bool" where
  "noStyleAttr doc = list_all (\<lambda>n. \<not> hasAttr (js ''style'') n) (allElements doc)"

section \<open>The prompt assembler\<close>

text \<open>
  \<^verbatim>\<open>index + 1\<close> inside a template literal: the decimal digits of a positive integer.
\<close>

function decimal :: "nat \<Rightarrow> jsstring" where
  "decimal n = (if n < 10 then [0x30 + of_nat n] else decimal (n div 10) @ [0x30 + of_nat (n mod 10)])"
  by pat_completeness auto
termination
  by (relation "measure id") auto

declare decimal.simps [simp del]

datatype role = System | User

record message =
  role :: role
  content :: jsstring

text \<open>
  The template literal of the system message runs over three source lines; the second
  and third start with the indentation of the source file, which is part of the
  string (eight spaces in \<^verbatim>\<open>LlamaWriter\<close>, one tab in the standalone module).
\<close>

definition systemContent :: "jsstring \<Rightarrow> jsstring \<Rightarrow> jsstring" where
  "systemContent indent title =
     js ''You are a helpful assistant that can read HTML. You will be given a few HTML snippets and you will need to generate a markdown output. ''
     @ [LF] @ indent
     @ js ''Generating simple and clear markdown in using original text only found in the HTML. Remove all links, images, and URLs. Do not repeat information.''
     @ [LF] @ indent
     @ js ''Always start the markdown with the page title as level 1 heading. The page title is ''
     @ [QUOTE] @ title @ [QUOTE] @ js ''.''"

definition chunkContent :: "nat \<Rightarrow> jsstring \<Rightarrow> jsstring" where
  "chunkContent index chunk = js ''HTML Chunk '' @ decimal (index + 1) @ js '': '' @ chunk"

definition finalContent :: "jsstring \<Rightarrow> jsstring" where
  "finalContent additionalPrompt =
     js ''Generate a markdown output, in the HTML content original language language, using all available HTML chunks. ''
     @ additionalPrompt"

definition buildMessages :: "jsstring \<Rightarrow> jsstring \<Rightarrow> jsstring list \<Rightarrow> jsstring \<Rightarrow> message list" where
  "buildMessages indent title chunkList additionalPrompt =
     [\<lparr>role = System, content = systemContent indent title\<rparr>]
     @ map (\<lambda>(index, chunk). \<lparr>role = User, content = chunkContent index chunk\<rparr>) (enumerate 0 chunkList)
     @ [\<lparr>role = User, content = finalContent additionalPrompt\<rparr>]"

definition llamaIndent :: jsstring where
  "llamaIndent = replicate 8 SP"

definition standaloneIndent :: jsstring where
  "standaloneIndent = [0x09]"

section \<open>The writers and the orchestrator (BaseWriter.run)\<close>

text \<open>
  A value of the \<^verbatim>\<open>response\<close> field of the model's answer. The field is read from
  an object the service returns, so it can be absent (\<^verbatim>\<open>undefined\<close>) or any value
  that JSON carries: \<^verbatim>\<open>null\<close>, a boolean, a number, a string, an array, an
  object. Of the numbers the model has the integers of fewer than 22 digits, which
  \<^verbatim>\<open>String\<close> prints in decimal; of the objects the plain ones, which it prints as
  \<^verbatim>\<open>[object Object]\<close>.

  \<^verbatim>\<open>String(v)\<close> on them: an array is printed as its elements joined by commas,
  where an element that is \<^verbatim>\<open>undefined\<close> or \<^verbatim>\<open>null\<close> gives the empty string and
  any other element its own \<^verbatim>\<open>String\<close>.
\<close>

datatype jsval =
    JUndefined
  | JNull
  | JBool bool
  | JInt int
  | JString jsstring
  | JArray "jsval list"
  | JObject

fun joinComma :: "jsstring list \<Rightarrow> jsstring" where
  "joinComma [] = []"
| "joinComma [x] = x"
| "joinComma (x # y # ys) = x @ [0x2C] @ joinComma (y # ys)"

fun String_of :: "jsval \<Rightarrow> jsstring" where
  "String_of JUndefined = js ''undefined''"
| "String_of JNull = js ''null''"
| "String_of (JBool b) = (if b then js ''true'' else js ''false'')"
| "String_of (JInt n) = (if n < 0 then 0x2D # decimal (nat (- n)) else decimal (nat n))"
| "String_of (JString s) = s"
| "String_of (JArray xs) =
     joinComma (map (\<lambda>x. if x = JUndefined \<or> x = JNull then [] else String_of x) xs)"
| "String_of JObject = js ''[object Object]''"

text \<open>
  The values that \<^verbatim>\<open>String\<close> turns into the empty string: the empty string, the
  empty array, and an array of one element that is \<^verbatim>\<open>undefined\<close>, \<^verbatim>\<open>null\<close> or
  again such a value.
\<close>

fun joinsToEmpty :: "jsval \<Rightarrow> bool" where
  "joinsToEmpty (JString s) = (s = [])"
| "joinsToEmpty (JArray []) = True"
| "joinsToEmpty (JArray [x]) = (x = JUndefined \<or> x = JNull \<or> joinsToEmpty x)"
| "joinsToEmpty (JArray (x # y # ys)) = False"
| "joinsToEmpty JUndefined = False"
| "joinsToEmpty JNull = False"
| "joinsToEmpty (JBool b) = False"
| "joinsToEmpty (JInt n) = False"
| "joinsToEmpty JObject = False"

text \<open>
  The services behind \<^verbatim>\<open>Env\<close>, each as the answer it gives to a call: \<open>Inl m\<close> when
  the call throws an error with message \<open>m\<close>, \<open>Inr v\<close> when it returns \<open>v\<close>.
  \<^item> \<open>PAGE_METADATA_first url\<close>: the \<^verbatim>\<open>SELECT\<close>; \<open>None\<close> for no row, else the row
    as \<^verbatim>\<open>String(id)\<close> and \<^verbatim>\<open>String(r2_path)\<close>.
  \<^item> \<open>RAW_HTML_BUCKET_get key\<close>: \<^verbatim>\<open>get\<close> followed by \<^verbatim>\<open>text()\<close>; \<open>None\<close> for no object.
  \<^item> \<open>HTML_PREPROCESS_get key\<close>: the rule store.
  \<^item> \<open>parseRules text\<close>: \<^verbatim>\<open>JSON.parse(text)?.rules || []\<close>.
  \<^item> \<open>AI_run model messages maxTokens\<close>: the \<^verbatim>\<open>response\<close> field of the answer.
  \<^item> \<open>Gemini_send title html prompt maxTokens\<close>: the chat session of
    \<^verbatim>\<open>GeminiWriter.generateMarkdown\<close>, up to \<^verbatim>\<open>response.response.text()\<close>.
  \<^item> \<open>KNOWLEDGE_BUCKET_put key markdown\<close> and \<open>PAGE_METADATA_update docId\<close>.
  Logging is left out.
\<close>

record env =
  AI_MODEL :: jsstring
  PAGE_METADATA_first :: "jsstring \<Rightarrow> jsstring + (jsstring \<times> jsstring) option"
  RAW_HTML_BUCKET_get :: "jsstring \<Rightarrow> jsstring + jsstring option"
  HTML_PREPROCESS_get :: "jsstring \<Rightarrow> jsstring + jsstring option"
  parseRules :: "jsstring \<Rightarrow> jsstring + rule list"
  AI_run :: "jsstring \<Rightarrow> message list \<Rightarrow> int \<Rightarrow> jsstring + jsval"
  Gemini_send :: "jsstring \<Rightarrow> jsstring \<Rightarrow> jsstring \<Rightarrow> int \<Rightarrow> jsstring + jsstring"
  KNOWLEDGE_BUCKET_put :: "jsstring \<Rightarrow> jsstring \<Rightarrow> jsstring + unit"
  PAGE_METADATA_update :: "jsstring \<Rightarrow> jsstring + unit"

text \<open>
  What a run does, in order: the calls it makes to the services, and the exception it
  raises, if any.
\<close>

datatype call =
    MetadataFirst jsstring
  | RawHtmlGet jsstring
  | RulesGet jsstring
  | AiRun jsstring "message list" int
  | GeminiSend jsstring jsstring jsstring int
  | KnowledgePut jsstring jsstring
  | MetadataUpdate jsstring

datatype event = Called call | Raised jsstring

text \<open>The fields of \<^verbatim>\<open>BaseWriter\<close> that a run sets, and the events so far.\<close>

record wstate =
  docId :: "jsstring option"
  r2Key :: "jsstring option"
  trace :: "event list"

definition initW :: wstate where
  "initW = \<lparr>docId = None, r2Key = None, trace = []\<rparr>"

type_synonym 'a io = "wstate \<Rightarrow> (jsstring + 'a) \<times> wstate"

definition returnIO :: "'a \<Rightarrow> 'a io" where
  "returnIO v = (\<lambda>s. (Inr v, s))"

definition throwIO :: "jsstring \<Rightarrow> 'a io" where
  "throwIO m = (\<lambda>s. (Inl m, s\<lparr>trace := trace s @ [Raised m]\<rparr>))"

definition bindIO :: "'a io \<Rightarrow> ('a \<Rightarrow> 'b io) \<Rightarrow> 'b io" where
  "bindIO m f = (\<lambda>s. case m s of (Inl e, s') \<Rightarrow> (Inl e, s') | (Inr v, s') \<Rightarrow> f v s')"

definition callIO :: "call \<Rightarrow> jsstring + 'a \<Rightarrow> 'a io" where
  "callIO c answer =
     (\<lambda>s. case answer of
             Inl m \<Rightarrow> (Inl m, s\<lparr>trace := trace s @ [Called c, Raised m]\<rparr>)
           | Inr v \<Rightarrow> (Inr v, s\<lparr>trace := trace s @ [Called c]\<rparr>))"

text \<open>
  A string that may be \<^verbatim>\<open>undefined\<close> or \<^verbatim>\<open>null\<close> is truthy when it is present and
  not empty: \<open>truthyString x\<close> is the string then, and \<open>None\<close> when \<open>x\<close> is falsy.
\<close>

definition truthyString :: "jsstring option \<Rightarrow> jsstring option" where
  "truthyString x = (case x of None \<Rightarrow> None | Some v \<Rightarrow> if v = [] then None else Some v)"

definition loadPageMetadata :: "env \<Rightarrow> jsstring \<Rightarrow> bool io" where
  "loadPageMetadata env url =
     bindIO (callIO (MetadataFirst url) (PAGE_METADATA_first env url))
       (\<lambda>pageMetadata. case pageMetadata of
            None \<Rightarrow> returnIO False
          | Some (rowId, r2_path) \<Rightarrow> (\<lambda>s. (Inr True, s\<lparr>docId := Some rowId, r2Key := Some r2_path\<rparr>)))"

definition getHtml :: "env \<Rightarrow> jsstring option io" where
  "getHtml env =
     (\<lambda>s. case truthyString (r2Key s) of
            None \<Rightarrow> throwIO (js ''r2Key is not set before calling getHtml()'') s
          | Some k \<Rightarrow> callIO (RawHtmlGet (k @ js ''.html'')) (RAW_HTML_BUCKET_get env (k @ js ''.html'')) s)"

definition storeMarkdown :: "env \<Rightarrow> jsstring \<Rightarrow> unit io" where
  "storeMarkdown env markdown =
     (\<lambda>s. case truthyString (r2Key s) of
            None \<Rightarrow> throwIO (js ''r2Key is not set before calling storeMarkdown()'') s
          | Some k \<Rightarrow>
              callIO (KnowledgePut (k @ js ''.md'') markdown) (KNOWLEDGE_BUCKET_put env (k @ js ''.md'') markdown) s)"

definition updatePageMetadata :: "env \<Rightarrow> unit io" where
  "updatePageMetadata env =
     (\<lambda>s. case truthyString (docId s) of
            None \<Rightarrow> throwIO (js ''docId is not set before calling updatePageMetadata()'') s
          | Some d \<Rightarrow> callIO (MetadataUpdate d) (PAGE_METADATA_update env d) s)"

text \<open>
  The two subclasses, with the fields their constructors set (defaults already
  applied).
\<close>

datatype writer =
    LlamaWriter (url: jsstring) (domain: jsstring) (maxTokens: int) (maxChunkSize: int)
  | GeminiWriter (url: jsstring) (maxTokens: int)

text \<open>\<^verbatim>\<open>domain.replace(/^www\./g, "")\<close>\<close>

definition stripWww :: "jsstring \<Rightarrow> jsstring" where
  "stripWww d = (if prefix (js ''www.'') d then drop 4 d else d)"

definition getHtmlPreprocessRules :: "env \<Rightarrow> jsstring \<Rightarrow> rule list io" where
  "getHtmlPreprocessRules env host =
     (let kvKey = js ''domain:'' @ stripWww host in
      bindIO (callIO (RulesGet kvKey) (HTML_PREPROCESS_get env kvKey))
        (\<lambda>htmlPreprocessRules.
           case truthyString htmlPreprocessRules of
             None \<Rightarrow> returnIO []
           | Some rulesText \<Rightarrow>
               (case parseRules env rulesText of
                  Inl m \<Rightarrow> throwIO m
                | Inr rules \<Rightarrow> returnIO rules)))"

text \<open>\<^verbatim>\<open>processedHtml.join("\n\n")\<close>\<close>

fun joinBlank :: "jsstring list \<Rightarrow> jsstring" where
  "joinBlank [] = []"
| "joinBlank [x] = x"
| "joinBlank (x # y # ys) = x @ [LF, LF] @ joinBlank (y # ys)"

definition llamaChunks :: "jsstring list \<Rightarrow> int \<Rightarrow> jsstring list" where
  "llamaChunks processedHtml maxSize =
     (if list_ex (\<lambda>curr. int (length curr) > maxSize) processedHtml
      then splitHtml (joinBlank processedHtml) maxSize
      else processedHtml)"

definition llamaGenerateMarkdown ::
  "env \<Rightarrow> int \<Rightarrow> jsstring \<Rightarrow> jsstring list \<Rightarrow> jsstring \<Rightarrow> jsstring io" where
  "llamaGenerateMarkdown env maxTok title chunkList additionalPrompt =
     (let model = AI_MODEL env;
          messages = buildMessages llamaIndent title chunkList additionalPrompt
      in bindIO (callIO (AiRun model messages maxTok) (AI_run env model messages maxTok))
           (\<lambda>response. returnIO (String_of response)))"

definition geminiGenerateMarkdown ::
  "env \<Rightarrow> int \<Rightarrow> jsstring \<Rightarrow> jsstring \<Rightarrow> jsstring \<Rightarrow> jsstring io" where
  "geminiGenerateMarkdown env maxTok title html additionalPrompt =
     callIO (GeminiSend title html additionalPrompt maxTok)
       (Gemini_send env title html additionalPrompt maxTok)"

fun writeMarkdown :: "'sel engine \<Rightarrow> env \<Rightarrow> writer \<Rightarrow> jsstring \<Rightarrow> jsstring \<Rightarrow> jsstring io" where
  "writeMarkdown e env (LlamaWriter u host maxTok maxSize) html additionalPrompt =
     bindIO (getHtmlPreprocessRules env host)
       (\<lambda>htmlPreprocessRules.
          (let preprocessResult = llamaPreprocessHTML e html htmlPreprocessRules;
               processedHtml = snd preprocessResult;
               title = fst preprocessResult
           in llamaGenerateMarkdown env maxTok title (llamaChunks processedHtml maxSize) additionalPrompt))"
| "writeMarkdown e env (GeminiWriter u maxTok) html additionalPrompt =
     (let preprocessResult = geminiPreprocessHTML e html
      in geminiGenerateMarkdown env maxTok (fst preprocessResult) (snd preprocessResult) additionalPrompt)"

datatype status = Success | Hardfail | Softfail

record result =
  message :: jsstring
  status :: status
  code :: int
  markdown :: "jsstring option"

text \<open>The \<^verbatim>\<open>try\<close> block of \<^verbatim>\<open>run\<close>.\<close>

definition runBody :: "'sel engine \<Rightarrow> env \<Rightarrow> writer \<Rightarrow> jsstring \<Rightarrow> result io" where
  "runBody e env w additionalPrompt =
     bindIO (loadPageMetadata env (url w))
       (\<lambda>success.
          if \<not> success then
            returnIO \<lparr>message = js ''URL not found in D1 PageMetadata'', status = Hardfail, code = 404, markdown = None\<rparr>
          else
            bindIO (getHtml env)
              (\<lambda>html.
                 case truthyString html of
                   None \<Rightarrow>
                     returnIO \<lparr>message = js ''HTML not found from R2'', status = Hardfail, code = 404, markdown = None\<rparr>
                 | Some h \<Rightarrow>
                   bindIO (writeMarkdown e env w h additionalPrompt)
                     (\<lambda>md.
                        if md = [] then
                          returnIO \<lparr>message = js ''Failed to generate markdown'', status = Hardfail, code = 500, markdown = None\<rparr>
                        else
                          bindIO (storeMarkdown env md)
                            (\<lambda>_. bindIO (updatePageMetadata env)
                               (\<lambda>_. returnIO \<lparr>message = js ''Markdown saved to Knowledge Bucket'',
                                                status = Success, code = 200, markdown = Some md\<rparr>)))))"

text \<open>
  \<^verbatim>\<open>run\<close>: the \<^verbatim>\<open>try\<close> block and its \<^verbatim>\<open>catch\<close>; the result it returns and the
  events of the run.
\<close>

definition run :: "'sel engine \<Rightarrow> env \<Rightarrow> writer \<Rightarrow> jsstring \<Rightarrow> result \<times> event list" where
  "run e env w additionalPrompt =
     (case runBody e env w additionalPrompt initW of
        (Inl m, s) \<Rightarrow> (\<lparr>message = m, status = Softfail, code = 500, markdown = None\<rparr>, trace s)
      | (Inr r, s) \<Rightarrow> (r, trace s))"



text \<open>The number that a string of decimal digits denotes.\<close>

definition decimalValue :: "jsstring \<Rightarrow> nat" where
  "decimalValue s = foldl (\<lambda>acc c. 10 * acc + (unat c - 48)) 0 s"

definition isDecimalDigit :: "jschar \<Rightarrow> bool" where
  "isDecimalDigit c = (0x30 \<le> c \<and> c \<le> 0x39)"

section \<open>A small document and stub services\<close>

text \<open>
  Concrete values on which the theorems below are run: a parsed document with a title,
  a script, a style element, an inline style and an inline image; an engine that
  returns it for any input and matches no rule selector; services that find the page
  and its HTML, hold no rules, and accept the writes, with the answer of the model as a
  parameter.
\<close>

definition demoDocument :: document where
  "demoDocument =
     [Element (js ''html'') []
        [Element (js ''head'') []
           [Element (js ''title'') [] [Text (js ''T'')],
            Element (js ''script'') [] [Text (js ''f()'')]],
         Element (js ''body'') []
           [Element (js ''p'') [(js ''style'', js ''c'')] [Text (js ''Hi'')],
            Element (js ''img'') [(js ''src'', js ''data:x'')] [],
            Element (js ''style'') [] [Text (js ''s'')]]]]"

definition demoEngine :: "unit engine" where
  "demoEngine =
     \<lparr>load = (\<lambda>html. demoDocument),
      select = (\<lambda>sel doc. None),
      selLength = (\<lambda>sel. 0),
      findRemove = (\<lambda>exc sel doc. None),
      selHtml = (\<lambda>sel doc. None)\<rparr>"

definition demoEnv :: "jsstring + jsval \<Rightarrow> env" where
  "demoEnv answer =
     \<lparr>AI_MODEL = js ''m'',
      PAGE_METADATA_first = (\<lambda>u. Inr (Some (js ''7'', js ''k''))),
      RAW_HTML_BUCKET_get = (\<lambda>k. Inr (Some (js ''<p>Hi</p>''))),
      HTML_PREPROCESS_get = (\<lambda>k. Inr None),
      parseRules = (\<lambda>x. Inr []),
      AI_run = (\<lambda>model messages n. answer),
      Gemini_send = (\<lambda>title html prompt n. Inr (js ''# T'')),
      KNOWLEDGE_BUCKET_put = (\<lambda>k md. Inr ()),
      PAGE_METADATA_update = (\<lambda>d. Inr ())\<rparr>"

definition demoWriter :: writer where
  "demoWriter = LlamaWriter (js ''https://www.a.io/'') (js ''www.a.io'') 1024 114688"

section \<open>Proofs: the chunk splitter\<close>

lemmas split_eval = splitHtml_def finish_def initState_def step_def splitHere_def tooLarge_def
  lastIndexOf_def closeTags_def openTags_def isClosingTag_def isSelfClosing_def tagNameOf_def
  js_def LT_def GT_def SP_def SLASH_def QUOTE_def lineTerminator_def Let_def

text \<open>
  C1. At a size boundary the next accumulator should be the reopening tags followed by
  the part of the previous accumulator after the split point, so that no character of
  the input is lost. The code appends a slice of the reopening tags instead, and the
  part after the split point is dropped: on the input below with maximum size 20 the
  space after \<open>world\<close> and the characters \<open> te\<close> of \<open> test\<close> appear in no chunk.
\<close>

theorem splitHtml_drops_remainder:
  "splitHtml (js ''<div><p>Hello world this is a test</p></div>'') 20 =
     [js ''<div><p>Hello world</p></div>'', js ''<div><p>this is a</p></div>'', js ''<div><p>st</p></div>'']"
  by (simp add: split_eval)

text \<open>
  C2. No chunk should end inside a tag token. The backward search for the last space
  looks at the whole accumulator, tag tokens included: on the input
  \<^verbatim>\<open><img alt="a b"/>ok\<close> with maximum size 4 the first chunk is \<^verbatim>\<open><img alt="a\<close>,
  and scanning that chunk ends inside the tag.
\<close>

theorem splitHtml_cuts_inside_tag:
  "splitHtml (js ''<img alt='' @ [QUOTE] @ js ''a b'' @ [QUOTE] @ js ''/>ok'') 4 =
     [js ''<img alt='' @ [QUOTE] @ js ''a'', js ''k'']
   \<and> inTag (scan 4 initState (js ''<img alt='' @ [QUOTE] @ js ''a''))"
  by (simp add: split_eval)

subsection \<open>Tag balance at the boundaries\<close>

text \<open>
  C3. At a boundary the elements still open where the chunk is cut should be closed at
  the end of that chunk, innermost first, and reopened at the start of the next,
  outermost first. The code closes and reopens the tag stack as it is at the character
  where the size test fires, while the cut is at the last space before it; tag tokens
  between the two have already changed the stack. With maximum size 14, on
  \<^verbatim>\<open><b>hello </b>world!!\<close> the first chunk is \<^verbatim>\<open><b>hello\<close>: it leaves \<open>b\<close> open,
  has no closing tag, and the next chunk reopens nothing; on \<^verbatim>\<open>hello <b>world</b>\<close>
  the first chunk is \<^verbatim>\<open>hello</b>\<close>, closing an element that is not open in it.
\<close>

theorem splitHtml_unbalanced_boundary:
  "splitHtml (js ''<b>hello </b>world!!'') 14 = [js ''<b>hello'', js ''orld!!''] \<and>
   tagStack (scan 14 initState (js ''<b>hello'')) = [js ''b''] \<and>
   splitHtml (js ''hello <b>world</b>'') 14 = [js ''hello</b>'', js ''<b></b>''] \<and>
   tagStack (scan 14 initState (js ''hello'')) = []"
  by (simp add: split_eval)

subsection \<open>A maximum size that is not positive\<close>

text \<open>
  C4 as stated: a maximum size of 0 or less is rejected before the scan. There is no
  such test: with maximum size 0 the loop runs and returns chunks.
\<close>

theorem splitHtml_nonpositive_counterexample:
  "splitHtml (js ''ab'') 0 = [js ''a'', js ''b'']"
  by (simp add: split_eval)

lemma step_nonpositive:
  assumes "maxSize \<le> 0" and "c \<noteq> LT" and "\<not> inTag s"
  shows "step maxSize s c = splitHere (s\<lparr>currentChunk := currentChunk s @ [c]\<rparr>)"
  using assms by (simp add: step_def Let_def tooLarge_def)

lemma chunks_splitHere: "length (chunks (splitHere s)) = Suc (length (chunks s))"
  by (simp add: splitHere_def Let_def)

lemma inTag_splitHere: "inTag (splitHere s) = inTag s"
  by (simp add: splitHere_def Let_def)

lemma scan_nonpositive:
  assumes "maxSize \<le> 0"
  shows "length (chunks (scan maxSize s h)) = length (chunks s) + textChars (inTag s) h"
proof (induction h arbitrary: s)
  case Nil
  then show ?case by simp
next
  case (Cons c cs)
  consider (lt) "c = LT" | (tag) "c \<noteq> LT" "inTag s" | (plain) "c \<noteq> LT" "\<not> inTag s"
    by blast
  then have "length (chunks (step maxSize s c)) + textChars (inTag (step maxSize s c)) cs
      = length (chunks s) + textChars (inTag s) (c # cs)"
  proof cases
    case lt
    then show ?thesis by (simp add: step_def)
  next
    case tag
    then show ?thesis by (simp add: step_def Let_def)
  next
    case plain
    then show ?thesis
      by (simp add: step_nonpositive [OF assms] chunks_splitHere inTag_splitHere)
  qed
  with Cons.IH [of "step maxSize s c"] show ?case by simp
qed

text \<open>
  C4 as amended: with a maximum size of 0 or less the splitter runs the scan; the size
  test holds after every character read outside a tag token, so the loop takes the
  branch of line 218 at each of them and emits one chunk for each.
\<close>

theorem splitHtml_nonpositive_runs:
  assumes "maxSize \<le> 0"
  shows "(\<forall>s c. c \<noteq> LT \<and> \<not> inTag s \<longrightarrow>
            tooLarge maxSize (s\<lparr>currentChunk := currentChunk s @ [c]\<rparr>) \<and>
            step maxSize s c = splitHere (s\<lparr>currentChunk := currentChunk s @ [c]\<rparr>)) \<and>
         length (chunks (scan maxSize initState htmlInput)) = textChars False htmlInput \<and>
         textChars False htmlInput \<le> length (splitHtml htmlInput maxSize)"
proof -
  have 1: "\<forall>s c. c \<noteq> LT \<and> \<not> inTag s \<longrightarrow>
            tooLarge maxSize (s\<lparr>currentChunk := currentChunk s @ [c]\<rparr>) \<and>
            step maxSize s c = splitHere (s\<lparr>currentChunk := currentChunk s @ [c]\<rparr>)"
    using assms by (simp add: step_nonpositive tooLarge_def)
  have 2: "length (chunks (scan maxSize initState htmlInput)) = textChars False htmlInput"
    using scan_nonpositive [OF assms, of initState htmlInput] by (simp add: initState_def)
  have 3: "textChars False htmlInput \<le> length (splitHtml htmlInput maxSize)"
    using 2 by (simp add: splitHtml_def finish_def)
  from 1 2 3 show ?thesis by blast
qed

theorem splitHtml_nonpositive_runs_witness:
  "(- 3 :: int) \<le> 0 \<and>
   textChars False (js ''<b>a b</b>!'') = 4 \<and>
   length (chunks (scan (- 3) initState (js ''<b>a b</b>!''))) = 4"
proof -
  have h: "(- 3 :: int) \<le> 0" by simp
  have t: "textChars False (js ''<b>a b</b>!'') = 4"
    by (simp add: js_def LT_def GT_def)
  from splitHtml_nonpositive_runs [OF h, of "js ''<b>a b</b>!''"]
  have "length (chunks (scan (- 3) initState (js ''<b>a b</b>!''))) = textChars False (js ''<b>a b</b>!'')"
    by blast
  with h t show ?thesis by simp
qed

section \<open>Proofs: the extractor\<close>

lemma elements_removeAttrWhere:
  "elements (removeAttrWhere sel a x) = map (removeAttrWhere sel a) (elements x)"
  by (induction x) (simp_all add: map_concat cong: map_cong)

lemma allElements_removeAttrWhere:
  "allElements (map (removeAttrWhere sel a) doc) = map (removeAttrWhere sel a) (allElements doc)"
  by (simp add: allElements_def map_concat elements_removeAttrWhere comp_def)

lemma tagName_removeAttrWhere: "tagName (removeAttrWhere sel a n) = tagName n"
  by (cases n) simp_all

lemma allElements_Nil: "allElements [] = []"
  by (simp add: allElements_def)

lemma allElements_Cons: "allElements (x # ns) = elements x @ allElements ns"
  by (simp add: allElements_def)

lemma elements_Element: "elements (Element nm as cs) = Element nm as cs # allElements cs"
  by (simp add: allElements_def)

lemma elements_are_elements: "n \<in> set (elements x) \<Longrightarrow> \<exists>nm as cs. n = Element nm as cs"
proof (induction x)
  case (Element nm as cs)
  then show ?case by auto
qed simp_all

lemma allElements_are_elements: "n \<in> set (allElements doc) \<Longrightarrow> \<exists>nm as cs. n = Element nm as cs"
  by (auto simp: allElements_def dest: elements_are_elements)

lemma removeByName_names:
  "n \<in> set (allElements (removeByName t doc)) \<Longrightarrow>
     tagName n \<noteq> t \<and> tagName n \<in> tagName ` set (allElements doc)"
proof (induction t doc arbitrary: n rule: removeByName.induct)
  case (1 t)
  then show ?case by (simp add: allElements_Nil)
next
  case (2 t nm as cs ns)
  show ?case
  proof (cases "nm = t")
    case True
    with "2.prems" have "n \<in> set (allElements (removeByName t ns))" by simp
    then have "tagName n \<noteq> t \<and> tagName n \<in> tagName ` set (allElements ns)"
      by (rule "2.IH"(1) [OF True])
    then show ?thesis by (auto simp: allElements_Cons)
  next
    case False
    with "2.prems" consider "n = Element nm as (removeByName t cs)"
      | "n \<in> set (allElements (removeByName t cs))" | "n \<in> set (allElements (removeByName t ns))"
      by (auto simp: allElements_Cons elements_Element simp del: elements.simps)
    then show ?thesis
    proof cases
      case 1
      then show ?thesis using False by (simp add: allElements_Cons)
    next
      case 2
      then have "tagName n \<noteq> t \<and> tagName n \<in> tagName ` set (allElements cs)"
        by (rule "2.IH"(2) [OF False])
      then show ?thesis by (auto simp: allElements_Cons elements_Element simp del: elements.simps)
    next
      case 3
      then have "tagName n \<noteq> t \<and> tagName n \<in> tagName ` set (allElements ns)"
        by (rule "2.IH"(3) [OF False])
      then show ?thesis by (auto simp: allElements_Cons)
    qed
  qed
next
  case (3 t s ns)
  from "3.prems" have "n \<in> set (allElements (removeByName t ns))"
    by (simp add: allElements_Cons)
  then have "tagName n \<noteq> t \<and> tagName n \<in> tagName ` set (allElements ns)"
    by (rule "3.IH")
  then show ?case by (auto simp: allElements_Cons)
next
  case (4 t s ns)
  from "4.prems" have "n \<in> set (allElements (removeByName t ns))"
    by (simp add: allElements_Cons)
  then have "tagName n \<noteq> t \<and> tagName n \<in> tagName ` set (allElements ns)"
    by (rule "4.IH")
  then show ?case by (auto simp: allElements_Cons)
qed

lemma noElementNamed_iff: "noElementNamed t doc \<longleftrightarrow> (\<forall>n \<in> set (allElements doc). tagName n \<noteq> t)"
  by (simp add: noElementNamed_def list_all_iff)

lemma noElementNamed_removeByName: "noElementNamed t (removeByName t doc)"
  by (auto simp: noElementNamed_iff dest: removeByName_names)

lemma noElementNamed_removeByName_other:
  "noElementNamed t doc \<Longrightarrow> noElementNamed t (removeByName t' doc)"
  by (auto simp: noElementNamed_iff dest!: removeByName_names)

lemma noElementNamed_removeAttrWhere:
  "noElementNamed t doc \<Longrightarrow> noElementNamed t (map (removeAttrWhere sel a) doc)"
  by (auto simp: noElementNamed_iff allElements_removeAttrWhere tagName_removeAttrWhere)

lemma map_of_removeAttr: "map_of (removeAttr a as) k = (if k = a then None else map_of as k)"
  by (induction as) (auto simp: removeAttr_def)

lemma noDataSrc_removeAttrWhere: "noDataSrc (map (removeAttrWhere imgWithDataSrc (js ''src'')) doc)"
proof -
  have "\<not> imgWithDataSrc (tagName (removeAttrWhere imgWithDataSrc (js ''src'') n))
           (attribs (removeAttrWhere imgWithDataSrc (js ''src'') n))"
    if "n \<in> set (allElements doc)" for n
  proof -
    from that obtain nm as cs where n: "n = Element nm as cs"
      by (auto dest: allElements_are_elements)
    show ?thesis
      by (cases "imgWithDataSrc nm as") (simp_all add: n imgWithDataSrc_def map_of_removeAttr)
  qed
  then show ?thesis
    by (simp add: noDataSrc_def list_all_iff allElements_removeAttrWhere)
qed

lemma src_not_style: "js ''src'' \<noteq> js ''style''"
  by (simp add: js_def)

lemma noDataSrc_removeStyleAttrs: "noDataSrc doc \<Longrightarrow> noDataSrc (removeStyleAttrs doc)"
proof -
  assume a: "noDataSrc doc"
  have "\<not> imgWithDataSrc (tagName (removeAttrWhere anyElement (js ''style'') n))
           (attribs (removeAttrWhere anyElement (js ''style'') n))"
    if "n \<in> set (allElements doc)" for n
  proof -
    from that obtain nm as cs where n: "n = Element nm as cs"
      by (auto dest: allElements_are_elements)
    from a have "\<forall>n \<in> set (allElements doc). \<not> imgWithDataSrc (tagName n) (attribs n)"
      by (simp add: noDataSrc_def list_all_iff)
    with that have "\<not> imgWithDataSrc (tagName n) (attribs n)" by blast
    then have "\<not> imgWithDataSrc nm as" by (simp add: n)
    then show ?thesis
      using src_not_style by (simp add: n imgWithDataSrc_def map_of_removeAttr anyElement_def)
  qed
  then show ?thesis
    by (simp add: noDataSrc_def list_all_iff allElements_removeAttrWhere removeStyleAttrs_def)
qed

lemma noStyleAttr_removeStyleAttrs: "noStyleAttr (removeStyleAttrs doc)"
proof -
  have "\<not> hasAttr (js ''style'') (removeAttrWhere anyElement (js ''style'') n)"
    if "n \<in> set (allElements doc)" for n
  proof -
    from that obtain nm as cs where n: "n = Element nm as cs"
      by (auto dest: allElements_are_elements)
    show ?thesis by (simp add: n hasAttr_def anyElement_def map_of_removeAttr)
  qed
  then show ?thesis
    by (simp add: noStyleAttr_def list_all_iff allElements_removeAttrWhere removeStyleAttrs_def)
qed

lemma removeScriptsStylesData_clean:
  "noElementNamed (js ''script'') (removeScriptsStylesData doc)"
  "noElementNamed (js ''style'') (removeScriptsStylesData doc)"
  "noDataSrc (removeScriptsStylesData doc)"
  unfolding removeScriptsStylesData_def
  by (intro noElementNamed_removeAttrWhere noElementNamed_removeByName_other noElementNamed_removeByName
        noDataSrc_removeAttrWhere)+

lemma removeStyleAttrs_keeps_names: "noElementNamed t doc \<Longrightarrow> noElementNamed t (removeStyleAttrs doc)"
  unfolding removeStyleAttrs_def by (rule noElementNamed_removeAttrWhere)

text \<open>
  C5 as stated: in every variant the cleanup removes every style attribute. The
  cleanup of \<^verbatim>\<open>LlamaWriter.preprocessHTML\<close> (and of \<^verbatim>\<open>GeminiWriter\<close>) has no such
  statement: an inline style stays.
\<close>

theorem llama_cleanup_keeps_style_attribute:
  "\<not> noStyleAttr (llamaCleanup [Element (js ''p'') [(js ''style'', js ''color:red'')] [Text (js ''x'')]])"
  by (simp add: llamaCleanup_def removeScriptsStylesData_def noStyleAttr_def allElements_def hasAttr_def
      imgWithDataSrc_def js_def)

text \<open>
  C5 as amended: for every input and every rule list, the document that the rules (or
  the fallback) are applied to has no script element, no style element and no \<open>img\<close>
  with a \<open>src\<close> that starts with \<open>data:\<close>, in all three variants; in the standalone
  \<^verbatim>\<open>preprocessHTML\<close> it has no style attribute either.
\<close>

theorem cleanup_before_rules:
  "noElementNamed (js ''script'') (llamaCleanup (load e html)) \<and>
   noElementNamed (js ''style'') (llamaCleanup (load e html)) \<and>
   noDataSrc (llamaCleanup (load e html)) \<and>
   snd (llamaPreprocessHTML e html rules) =
     (if rules = [] then [textOfTag (js ''body'') (llamaCleanup (load e html))]
      else applyRules e rules (llamaCleanup (load e html)) []) \<and>
   noElementNamed (js ''script'') (geminiCleanup (load e html)) \<and>
   noElementNamed (js ''style'') (geminiCleanup (load e html)) \<and>
   noDataSrc (geminiCleanup (load e html)) \<and>
   snd (geminiPreprocessHTML e html) = concat (map textOf (geminiCleanup (load e html))) \<and>
   noElementNamed (js ''script'') (standaloneCleanup (load e html)) \<and>
   noElementNamed (js ''style'') (standaloneCleanup (load e html)) \<and>
   noDataSrc (standaloneCleanup (load e html)) \<and>
   noStyleAttr (standaloneCleanup (load e html)) \<and>
   snd (preprocessHTML e html rules) =
     (if rules = [] then [textOfTag (js ''body'') (standaloneCleanup (load e html))]
      else applyRules e rules (standaloneCleanup (load e html)) [])"
  by (simp add: llamaCleanup_def geminiCleanup_def standaloneCleanup_def removeScriptsStylesData_clean
      removeStyleAttrs_keeps_names noDataSrc_removeStyleAttrs noStyleAttr_removeStyleAttrs
      llamaPreprocessHTML_def geminiPreprocessHTML_def preprocessHTML_def Let_def)

theorem cleanup_before_rules_witness:
  "\<not> noElementNamed (js ''script'') demoDocument \<and> \<not> noStyleAttr demoDocument \<and>
   noElementNamed (js ''script'') (llamaCleanup demoDocument) \<and>
   noStyleAttr (standaloneCleanup demoDocument) \<and>
   snd (preprocessHTML demoEngine (js ''<p>Hi</p>'') [])
     = [textOfTag (js ''body'') (standaloneCleanup demoDocument)]"
proof -
  have "\<not> noElementNamed (js ''script'') demoDocument \<and> \<not> noStyleAttr demoDocument"
    by (simp add: demoDocument_def noElementNamed_def noStyleAttr_def allElements_def hasAttr_def js_def)
  then show ?thesis
    using cleanup_before_rules [of demoEngine "js ''<p>Hi</p>''" "[]"]
    by (simp add: demoEngine_def)
qed

text \<open>
  C6. With an empty rule list the fragments are one string, the text of the body of
  the cleaned document (\<^verbatim>\<open>LlamaWriter.preprocessHTML\<close> and the standalone
  \<^verbatim>\<open>preprocessHTML\<close>).
\<close>

theorem no_rules_single_fragment:
  "snd (llamaPreprocessHTML e html []) = [textOfTag (js ''body'') (llamaCleanup (load e html))] \<and>
   length (snd (llamaPreprocessHTML e html [])) = 1 \<and>
   snd (preprocessHTML e html []) = [textOfTag (js ''body'') (standaloneCleanup (load e html))] \<and>
   length (snd (preprocessHTML e html [])) = 1"
  by (simp add: llamaPreprocessHTML_def preprocessHTML_def Let_def)

theorem no_rules_single_fragment_witness:
  "snd (llamaPreprocessHTML demoEngine (js ''<p>Hi</p>'') []) = [js ''Hi'']"
proof -
  have "textOfTag (js ''body'') (llamaCleanup (load demoEngine (js ''<p>Hi</p>''))) = js ''Hi''"
    by (simp add: demoEngine_def demoDocument_def llamaCleanup_def removeScriptsStylesData_def
        imgWithDataSrc_def textOfTag_def allElements_def js_def)
  then show ?thesis
    using no_rules_single_fragment [of demoEngine "js ''<p>Hi</p>''"] by simp
qed

section \<open>Proofs: the prompt assembler\<close>

lemma digit_value: "d < 10 \<Longrightarrow> unat (0x30 + of_nat d :: jschar) - 48 = d"
proof -
  assume d: "d < 10"
  have "unat (0x30 + of_nat d :: jschar) = (48 + d mod 2 ^ 16) mod 2 ^ 16"
    by (simp add: unat_word_ariths unat_of_nat)
  also have "\<dots> = 48 + d" using d by simp
  finally show ?thesis by simp
qed

lemma decimalValue_decimal: "decimalValue (decimal n) = n"
proof (induction n rule: decimal.induct)
  case (1 n)
  show ?case
  proof (cases "n < 10")
    case True
    then show ?thesis
      by (subst decimal.simps) (simp add: decimalValue_def digit_value)
  next
    case False
    then have ih: "decimalValue (decimal (n div 10)) = n div 10" by (rule "1.IH")
    have m: "n mod 10 < 10" by simp
    have "decimalValue (decimal n) = 10 * decimalValue (decimal (n div 10)) + n mod 10"
      using False by (subst decimal.simps) (simp add: decimalValue_def digit_value [OF m])
    then show ?thesis using ih by simp
  qed
qed


lemma digit_char: "d < 10 \<Longrightarrow> isDecimalDigit (0x30 + of_nat d)"
proof -
  assume d: "d < 10"
  have "unat (0x30 + of_nat d :: jschar) = (48 + d mod 2 ^ 16) mod 2 ^ 16"
    by (simp add: unat_word_ariths unat_of_nat)
  also have "\<dots> = 48 + d" using d by simp
  finally have "unat (0x30 + of_nat d :: jschar) = 48 + d" .
  with d show ?thesis
    by (simp add: isDecimalDigit_def word_le_nat_alt)
qed

lemma digit_nonzero: "0 < d \<Longrightarrow> d < 10 \<Longrightarrow> (of_nat d :: jschar) \<noteq> 0"
proof
  assume d: "0 < d" "d < 10" and e: "(of_nat d :: jschar) = 0"
  have "unat (of_nat d :: jschar) = d mod 2 ^ 16"
    by (simp add: unat_of_nat)
  also have "\<dots> = d" using d by simp
  finally have "unat (of_nat d :: jschar) = d" .
  with e d show False by simp
qed

lemma decimal_nonempty: "decimal n \<noteq> []"
  by (subst decimal.simps) simp

lemma decimal_digits: "list_all isDecimalDigit (decimal n)"
proof (induction n rule: decimal.induct)
  case (1 n)
  show ?case
  proof (cases "n < 10")
    case True
    then show ?thesis by (subst decimal.simps) (simp add: digit_char)
  next
    case False
    then have "list_all isDecimalDigit (decimal (n div 10))" by (rule "1.IH")
    moreover have "isDecimalDigit (0x30 + of_nat (n mod 10))" by (rule digit_char) simp
    ultimately show ?thesis using False by (subst decimal.simps) simp
  qed
qed

lemma decimal_no_leading_zero: "0 < n \<Longrightarrow> hd (decimal n) \<noteq> 0x30"
proof (induction n rule: decimal.induct)
  case (1 n)
  show ?case
  proof (cases "n < 10")
    case True
    with "1.prems" show ?thesis by (subst decimal.simps) (simp add: digit_nonzero)
  next
    case False
    then have "0 < n div 10" by simp
    with False have "hd (decimal (n div 10)) \<noteq> 0x30" by (rule "1.IH")
    then show ?thesis using False decimal_nonempty [of "n div 10"]
      by (subst decimal.simps) simp
  qed
qed

text \<open>
  C7. For a title, \<open>N\<close> chunks and an instruction, the messages are \<open>N + 2\<close>: first the
  system message, the directive of the source followed by the title in quotes; then,
  for each \<open>i < N\<close>, at position \<open>i + 1\<close>, a user message \<^verbatim>\<open>HTML Chunk\<close> with the
  decimal numeral of \<open>i + 1\<close> (digits only, no leading zero, of that value) and the
  \<open>i\<close>-th chunk; and last a user message with the generation directive followed by
  the instruction. The indentation inside the directive is eight spaces in
  \<^verbatim>\<open>LlamaWriter\<close> and a tab in the standalone module.
\<close>

theorem buildMessages_shape:
  "length (buildMessages indent title chunkList additionalPrompt) = length chunkList + 2 \<and>
   buildMessages indent title chunkList additionalPrompt ! 0 =
     \<lparr>role = System,
      content =
        js ''You are a helpful assistant that can read HTML. You will be given a few HTML snippets and you will need to generate a markdown output. ''
        @ [LF] @ indent
        @ js ''Generating simple and clear markdown in using original text only found in the HTML. Remove all links, images, and URLs. Do not repeat information.''
        @ [LF] @ indent
        @ js ''Always start the markdown with the page title as level 1 heading. The page title is ''
        @ [QUOTE] @ title @ [QUOTE] @ js ''.''\<rparr> \<and>
   (\<forall>i < length chunkList.
      buildMessages indent title chunkList additionalPrompt ! Suc i =
        \<lparr>role = User, content = js ''HTML Chunk '' @ decimal (i + 1) @ js '': '' @ chunkList ! i\<rparr> \<and>
      list_all isDecimalDigit (decimal (i + 1)) \<and> hd (decimal (i + 1)) \<noteq> 0x30 \<and>
      decimalValue (decimal (i + 1)) = i + 1) \<and>
   buildMessages indent title chunkList additionalPrompt ! Suc (length chunkList) =
     \<lparr>role = User,
      content = js ''Generate a markdown output, in the HTML content original language language, using all available HTML chunks. ''
        @ additionalPrompt\<rparr> \<and>
   llamaIndent = js ''        '' \<and> standaloneIndent = [0x09]"
proof -
  have len: "length (buildMessages indent title chunkList additionalPrompt) = length chunkList + 2"
    by (simp add: buildMessages_def)
  have first: "buildMessages indent title chunkList additionalPrompt ! 0 =
     \<lparr>role = System, content = systemContent indent title\<rparr>"
    by (simp add: buildMessages_def)
  have mid: "buildMessages indent title chunkList additionalPrompt ! Suc i =
        \<lparr>role = User, content = js ''HTML Chunk '' @ decimal (i + 1) @ js '': '' @ chunkList ! i\<rparr>"
    if "i < length chunkList" for i
    using that by (simp add: buildMessages_def nth_append nth_enumerate_eq chunkContent_def)
  have m: "\<forall>i < length chunkList.
      buildMessages indent title chunkList additionalPrompt ! Suc i =
        \<lparr>role = User, content = js ''HTML Chunk '' @ decimal (i + 1) @ js '': '' @ chunkList ! i\<rparr> \<and>
      list_all isDecimalDigit (decimal (i + 1)) \<and> hd (decimal (i + 1)) \<noteq> 0x30 \<and>
      decimalValue (decimal (i + 1)) = i + 1"
    using mid by (simp add: decimalValue_decimal decimal_digits decimal_no_leading_zero)
  have fin: "buildMessages indent title chunkList additionalPrompt ! Suc (length chunkList) =
     \<lparr>role = User, content = finalContent additionalPrompt\<rparr>"
    by (simp add: buildMessages_def nth_append)
  have ind: "llamaIndent = js ''        '' \<and> standaloneIndent = [0x09]"
    by (simp add: llamaIndent_def standaloneIndent_def js_def SP_def numeral_eq_Suc)
  show ?thesis
    by (rule conjI [OF len conjI [OF first [unfolded systemContent_def]
          conjI [OF m conjI [OF fin [unfolded finalContent_def] ind]]]])
qed

theorem buildMessages_shape_witness:
  "buildMessages llamaIndent (js ''T'') [js ''a'', js ''b''] (js ''P'') ! Suc 1 =
     \<lparr>role = User, content = js ''HTML Chunk 2: b''\<rparr>"
proof -
  have lt: "(1::nat) < length [js ''a'', js ''b'']" by simp
  note all = buildMessages_shape [of llamaIndent "js ''T''" "[js ''a'', js ''b'']" "js ''P''",
      THEN conjunct2, THEN conjunct2, THEN conjunct1, rule_format, OF lt, THEN conjunct1]
  then show ?thesis by (simp add: decimal.simps js_def)
qed

section \<open>Proofs: the orchestrator\<close>

lemmas run_eval = run_def runBody_def loadPageMetadata_def getHtml_def storeMarkdown_def
  updatePageMetadata_def getHtmlPreprocessRules_def llamaGenerateMarkdown_def
  bindIO_def callIO_def returnIO_def throwIO_def initW_def truthyString_def Let_def



















text \<open>
  C8. When the metadata lookup finds no row, the run returns hardfail with status 404
  and no markdown, and the lookup is the only call it has made.
\<close>

theorem run_not_found:
  assumes "PAGE_METADATA_first env (url w) = Inr None"
  shows "run e env w p =
     (\<lparr>message = js ''URL not found in D1 PageMetadata'', status = Hardfail, code = 404, markdown = None\<rparr>,
      [Called (MetadataFirst (url w))])"
  using assms
  by (simp add: run_def runBody_def loadPageMetadata_def bindIO_def callIO_def returnIO_def initW_def)

theorem run_not_found_witness:
  "run demoEngine ((demoEnv (Inr JNull))\<lparr>PAGE_METADATA_first := (\<lambda>u. Inr None)\<rparr>) demoWriter (js ''be brief'') =
     (\<lparr>message = js ''URL not found in D1 PageMetadata'', status = Hardfail, code = 404, markdown = None\<rparr>,
      [Called (MetadataFirst (js ''https://www.a.io/''))])"
proof -
  have "PAGE_METADATA_first ((demoEnv (Inr JNull))\<lparr>PAGE_METADATA_first := (\<lambda>u. Inr None)\<rparr>) (url demoWriter) = Inr None"
    by simp
  from run_not_found [OF this, of demoEngine "js ''be brief''"] show ?thesis
    by (simp add: demoWriter_def)
qed




lemma joinComma_empty: "joinComma xs = [] \<longleftrightarrow> xs = [] \<or> xs = [[]]"
  by (induction xs rule: joinComma.induct) simp_all

lemma String_of_empty: "String_of v = [] \<longleftrightarrow> joinsToEmpty v"
proof (induction v rule: joinsToEmpty.induct)
  case (3 x)
  then show ?case by (auto simp: js_def)
next
  case (8 n)
  then show ?case by (simp add: decimal_nonempty)
qed (simp_all add: js_def joinComma_empty)

lemma getHtmlPreprocessRules_ok:
  assumes "HTML_PREPROCESS_get env (js ''domain:'' @ stripWww host) = Inr stored"
    and "\<And>x. parseRules env x = Inr (rulesOf x)"
  shows "\<exists>rules. getHtmlPreprocessRules env host s =
           (Inr rules, s\<lparr>trace := trace s @ [Called (RulesGet (js ''domain:'' @ stripWww host))]\<rparr>)"
  using assms
  by (simp add: getHtmlPreprocessRules_def Let_def bindIO_def callIO_def returnIO_def
      split: option.splits)

lemma llama_writeMarkdown_ok:
  assumes "HTML_PREPROCESS_get env (js ''domain:'' @ stripWww host) = Inr stored"
    and "\<And>x. parseRules env x = Inr (rulesOf x)"
    and "\<And>model msgs n. AI_run env model msgs n = Inr v"
  shows "\<exists>tw. writeMarkdown e env (LlamaWriter u host maxTok maxSize) html p s =
           (Inr (String_of v), s\<lparr>trace := trace s @ tw\<rparr>)"
proof -
  from getHtmlPreprocessRules_ok [OF assms(1,2), of s] obtain rules where
    r: "getHtmlPreprocessRules env host s =
           (Inr rules, s\<lparr>trace := trace s @ [Called (RulesGet (js ''domain:'' @ stripWww host))]\<rparr>)"
    by blast
  show ?thesis
    by (simp add: bindIO_def r llamaGenerateMarkdown_def Let_def callIO_def returnIO_def assms(3);
        rule exI; rule refl)
qed

text \<open>
  C10 as stated: the markdown of \<^verbatim>\<open>LlamaWriter.generateMarkdown\<close> is falsy only when
  the response field is exactly the empty string. \<^verbatim>\<open>String([])\<close> is the empty
  string as well: a run in which the model answers with the empty array ends in the
  hardfail for empty output.
\<close>

theorem empty_array_response_counterexample:
  "JArray [] \<noteq> JString [] \<and> String_of (JArray []) = [] \<and>
   fst (run demoEngine (demoEnv (Inr (JArray []))) demoWriter (js ''be brief'')) =
     \<lparr>message = js ''Failed to generate markdown'', status = Hardfail, code = 500, markdown = None\<rparr>"
  by (simp add: run_eval demoEnv_def demoWriter_def demoEngine_def demoDocument_def stripWww_def
      llamaPreprocessHTML_def llamaCleanup_def removeScriptsStylesData_def imgWithDataSrc_def
      textOfTag_def allElements_def llamaChunks_def js_def)

text \<open>
  C10 as amended: \<^verbatim>\<open>String(v)\<close> is empty exactly for the empty string and for the
  arrays it joins to the empty string, and for no other value. When the model answers
  \<^verbatim>\<open>null\<close> or \<^verbatim>\<open>undefined\<close> in a run of \<^verbatim>\<open>LlamaWriter\<close> whose other steps
  succeed, the markdown is the text \<open>null\<close> or \<open>undefined\<close>, the run stores it and
  returns success with status 200.
\<close>

theorem llama_null_response_persisted:
  assumes "PAGE_METADATA_first env u = Inr (Some (rowId, key))" and "rowId \<noteq> []" and "key \<noteq> []"
    and "RAW_HTML_BUCKET_get env (key @ js ''.html'') = Inr (Some html)" and "html \<noteq> []"
    and "HTML_PREPROCESS_get env (js ''domain:'' @ stripWww host) = Inr stored"
    and "\<And>x. parseRules env x = Inr (rulesOf x)"
    and "\<And>model msgs n. AI_run env model msgs n = Inr v" and "v = JNull \<or> v = JUndefined"
    and "KNOWLEDGE_BUCKET_put env (key @ js ''.md'') (String_of v) = Inr ()"
    and "PAGE_METADATA_update env rowId = Inr ()"
  shows "(\<forall>x. String_of x = [] \<longleftrightarrow> joinsToEmpty x) \<and>
     (String_of v = js ''null'' \<or> String_of v = js ''undefined'') \<and>
     fst (run e env (LlamaWriter u host maxTok maxSize) p) =
       \<lparr>message = js ''Markdown saved to Knowledge Bucket'', status = Success, code = 200,
        markdown = Some (String_of v)\<rparr> \<and>
     (\<exists>tw. snd (run e env (LlamaWriter u host maxTok maxSize) p) =
        [Called (MetadataFirst u), Called (RawHtmlGet (key @ js ''.html''))] @ tw @
        [Called (KnowledgePut (key @ js ''.md'') (String_of v)), Called (MetadataUpdate rowId)])"
proof -
  define s1 where "s1 = \<lparr>docId = Some rowId, r2Key = Some key, trace = [Called (MetadataFirst u)]\<rparr>"
  define s2 where "s2 = s1\<lparr>trace := trace s1 @ [Called (RawHtmlGet (key @ js ''.html''))]\<rparr>"
  have l: "loadPageMetadata env u initW = (Inr True, s1)"
    using assms(1) by (simp add: loadPageMetadata_def bindIO_def callIO_def initW_def s1_def)
  have g: "getHtml env s1 = (Inr (Some html), s2)"
    using assms(3,4) by (simp add: getHtml_def truthyString_def callIO_def s1_def s2_def)
  from llama_writeMarkdown_ok [OF assms(6,7,8), of e u maxTok maxSize html p s2] obtain tw where
    w: "writeMarkdown e env (LlamaWriter u host maxTok maxSize) html p s2 =
          (Inr (String_of v), s2\<lparr>trace := trace s2 @ tw\<rparr>)"
    by blast
  have ne: "String_of v \<noteq> []"
    using assms(9) by (auto simp: js_def)
  define s3 where "s3 = s2\<lparr>trace := trace s2 @ tw\<rparr>"
  have st: "storeMarkdown env (String_of v) s3 =
      (Inr (), s3\<lparr>trace := trace s3 @ [Called (KnowledgePut (key @ js ''.md'') (String_of v))]\<rparr>)"
    using assms(3,10) by (simp add: storeMarkdown_def truthyString_def callIO_def s3_def s2_def s1_def)
  define s4 where "s4 = s3\<lparr>trace := trace s3 @ [Called (KnowledgePut (key @ js ''.md'') (String_of v))]\<rparr>"
  have up: "updatePageMetadata env s4 = (Inr (), s4\<lparr>trace := trace s4 @ [Called (MetadataUpdate rowId)]\<rparr>)"
    using assms(2,11)
    by (simp add: updatePageMetadata_def truthyString_def callIO_def s4_def s3_def s2_def s1_def)
  have body: "runBody e env (LlamaWriter u host maxTok maxSize) p initW =
      (Inr \<lparr>message = js ''Markdown saved to Knowledge Bucket'', status = Success, code = 200,
            markdown = Some (String_of v)\<rparr>,
       s4\<lparr>trace := trace s4 @ [Called (MetadataUpdate rowId)]\<rparr>)"
    using assms(5) ne
    by (simp add: runBody_def bindIO_def l g truthyString_def w [folded s3_def] st [folded s4_def] up
        returnIO_def del: writeMarkdown.simps)
  have tr: "trace (s4\<lparr>trace := trace s4 @ [Called (MetadataUpdate rowId)]\<rparr>) =
      [Called (MetadataFirst u), Called (RawHtmlGet (key @ js ''.html''))] @ tw @
      [Called (KnowledgePut (key @ js ''.md'') (String_of v)), Called (MetadataUpdate rowId)]"
    by (simp add: s4_def s3_def s2_def s1_def)
  have "String_of v = js ''null'' \<or> String_of v = js ''undefined''"
    using assms(9) by auto
  then show ?thesis
    using body tr by (simp add: run_def String_of_empty del: append.simps)
qed

theorem llama_null_response_persisted_witness:
  "fst (run demoEngine (demoEnv (Inr JNull)) demoWriter (js ''be brief'')) =
     \<lparr>message = js ''Markdown saved to Knowledge Bucket'', status = Success, code = 200,
      markdown = Some (js ''null'')\<rparr>"
proof -
  have "fst (run demoEngine (demoEnv (Inr JNull))
          (LlamaWriter (js ''https://www.a.io/'') (js ''www.a.io'') 1024 114688) (js ''be brief'')) =
       \<lparr>message = js ''Markdown saved to Knowledge Bucket'', status = Success, code = 200,
        markdown = Some (String_of JNull)\<rparr>"
    using llama_null_response_persisted [of "demoEnv (Inr JNull)" "js ''https://www.a.io/''"
        "js ''7''" "js ''k''" "js ''<p>Hi</p>''" "js ''www.a.io''" None "\<lambda>x. []" JNull
        demoEngine 1024 114688 "js ''be brief''"]
    by (simp add: demoEnv_def js_def)
  then show ?thesis by (simp add: demoWriter_def)
qed

end
